theory Spec2Isabelle
  imports Main "HOL-Library.Word"
begin

section \<open>JavaScript values\<close>

text \<open>
  A JavaScript string is a sequence of UTF-16 code units: \<open>length\<close> counts code
  units, \<open>substring(0, n)\<close> keeps the first \<open>n\<close> of them, and \<open>+\<close> is
  concatenation. The literals of the source are ASCII; \<open>utf16\<close> turns such a
  literal into its code units.
\<close>

type_synonym js_string = "16 word list"

definition utf16 :: "string \<Rightarrow> js_string" where
  "utf16 s = map (\<lambda>c. of_nat (of_char c)) s"

text \<open>
  The decimal digits a template literal prints for a number that is a natural number
  (a row of the parser is one; the model leaves out the exponent notation that
  JavaScript switches to from \<open>10^21\<close> on).
\<close>

definition digit :: "nat \<Rightarrow> 16 word" where
  "digit d = of_nat (48 + d)"

fun Number_toString :: "nat \<Rightarrow> js_string" where
  "Number_toString n =
     (if n < 10 then [digit n] else Number_toString (n div 10) @ [digit (n mod 10)])"

declare Number_toString.simps [simp del]

text \<open>
  Reading decimal digits back: the number that a string of digits stands for.
\<close>

definition isDigit :: "16 word \<Rightarrow> bool" where
  "isDigit c = (0x30 \<le> c \<and> c \<le> 0x39)"

definition decimal_value :: "js_string \<Rightarrow> nat" where
  "decimal_value ds = foldl (\<lambda>acc c. 10 * acc + (unat c - 48)) 0 ds"

text \<open>The line terminators of ECMAScript: LF, CR, LS and PS.\<close>

definition isLineTerminator :: "16 word \<Rightarrow> bool" where
  "isLineTerminator c = (c = 0x000A \<or> c = 0x000D \<or> c = 0x2028 \<or> c = 0x2029)"

definition isSingleLine :: "js_string \<Rightarrow> bool" where
  "isSingleLine s = (filter isLineTerminator s = [])"

text \<open>\<open>throw Error(msg)\<close> and a rejected promise carry an error value.\<close>

datatype Error = Error js_string

section \<open>Shared types (types.ts)\<close>

datatype OutputType = Nvim | Vim | Emacs | Cmd

text \<open>
  \<open>Point\<close> is the parser's position type (package code-chopper); the source reads its
  \<open>row\<close> only.
\<close>

record Point =
  row :: nat
  column :: nat

record CursorInfo =
  start :: Point
  end_pos :: Point

record ListItem =
  filePath :: js_string
  entity :: js_string
  content :: js_string
  language :: js_string
  cursorInfo :: CursorInfo

record QueryProps =
  queryText :: js_string
  k :: int
  isJsonOutput :: bool
  dbPath :: js_string

record SearchResult =
  rank :: int
  sr_file :: js_string
  fileName :: js_string
  contentSnippet :: js_string
  sr_entity :: js_string
  parentInfo :: js_string
  score :: js_string
  sr_language :: js_string
  sr_cursorInfo :: CursorInfo

text \<open>
  A row that \<open>db.searchSimilar\<close> resolves with: the stored chunk's metadata and its
  distance to the query. The distance is a JavaScript number; its type is left open
  (\<open>'n\<close>), and \<open>Number.prototype.toFixed\<close> is a parameter of the functions that
  call it.
\<close>

record 'n ChunkRow =
  row_content :: js_string
  filepath :: js_string
  row_fileName :: js_string
  inlineDocument :: js_string
  row_parentInfo :: js_string
  row_entity :: js_string
  row_language :: js_string
  row_cursorInfo :: CursorInfo
  distance :: 'n

text \<open>
  The database handle \<open>this.db\<close>: \<open>None\<close> while it is undefined, otherwise the
  behaviour of its \<open>searchSimilar(queryText, k)\<close>, which resolves with rows or rejects.
\<close>

type_synonym 'n VeqliteDB = "js_string \<Rightarrow> int \<Rightarrow> Error + 'n ChunkRow list"

section \<open>FlfDirCore (dircore.ts) and FlfBufferCore (buffercore.ts)\<close>

text \<open>
  The callback of \<open>results.map((result, index) => ...)\<close> in \<open>search\<close>; both cores
  have the same one.
\<close>

definition toSearchResult :: "('n \<Rightarrow> nat \<Rightarrow> js_string) \<Rightarrow> bool \<Rightarrow> nat \<times> 'n ChunkRow \<Rightarrow> SearchResult" where
  "toSearchResult toFixed isJson p =
     (case p of (index, result) \<Rightarrow>
       \<lparr> rank = int index + 1,
         sr_file = filepath result,
         fileName = row_fileName result,
         contentSnippet =
           (if isJson then row_content result
            else take 100 (row_content result) @ utf16 ''...''),
         sr_entity = row_entity result,
         parentInfo = row_parentInfo result,
         score = toFixed (distance result) 4,
         sr_language = row_language result,
         sr_cursorInfo = row_cursorInfo result \<rparr>)"

definition FlfDirCore_search ::
  "('n \<Rightarrow> nat \<Rightarrow> js_string) \<Rightarrow> 'n VeqliteDB option \<Rightarrow> QueryProps \<Rightarrow> Error + SearchResult list" where
  "FlfDirCore_search toFixed db props =
     (case db of
        None \<Rightarrow> Inl (Error (utf16 ''DB must be initialized before searching.''))
      | Some searchSimilar \<Rightarrow>
          (case searchSimilar (queryText props) (k props) of
             Inl e \<Rightarrow> Inl e
           | Inr results \<Rightarrow>
               Inr (map (toSearchResult toFixed (isJsonOutput props)) (enumerate 0 results))))"

definition FlfBufferCore_search ::
  "('n \<Rightarrow> nat \<Rightarrow> js_string) \<Rightarrow> 'n VeqliteDB option \<Rightarrow> QueryProps \<Rightarrow> Error + SearchResult list" where
  "FlfBufferCore_search toFixed db props =
     (case db of
        None \<Rightarrow> Inl (Error (utf16 ''DB must be initialized before searching.''))
      | Some searchSimilar \<Rightarrow>
          (case searchSimilar (queryText props) (k props) of
             Inl e \<Rightarrow> Inl e
           | Inr results \<Rightarrow>
               Inr (map (toSearchResult toFixed (isJsonOutput props)) (enumerate 0 results))))"

text \<open>
  \<open>formatResult\<close>: \<open>JSON.stringify\<close> is a parameter. The directory core prints a
  \<open>tabf\<close> command, the buffer core a call of \<open>FlfJumpToBufWithLine\<close>.
\<close>

definition FlfDirCore_formatResult ::
  "(ListItem \<Rightarrow> js_string) \<Rightarrow> ListItem \<Rightarrow> OutputType \<Rightarrow> js_string" where
  "FlfDirCore_formatResult JSON_stringify result outputType =
     (let query = JSON_stringify result in
      if outputType = Nvim \<or> outputType = Vim
      then utf16 ''<cmd>tabf +'' @ Number_toString (row (start (cursorInfo result)) + 1)
           @ utf16 '' '' @ filePath result @ utf16 ''<CR>''
      else query)"

definition FlfBufferCore_formatResult ::
  "(ListItem \<Rightarrow> js_string) \<Rightarrow> ListItem \<Rightarrow> OutputType \<Rightarrow> js_string" where
  "FlfBufferCore_formatResult JSON_stringify result outputType =
     (let query = JSON_stringify result in
      if outputType = Nvim \<or> outputType = Vim
      then utf16 ''<cmd>call FlfJumpToBufWithLine('' @ [0x22] @ filePath result @ [0x22]
           @ utf16 '','' @ [0x22] @ Number_toString (row (start (cursorInfo result)) + 1)
           @ [0x22] @ utf16 '')<CR>''
      else query)"

section \<open>Strings in the console\<close>

text \<open>
  \<open>String.prototype.trim\<close> removes white space and line terminators from both ends.
\<close>

definition isWhiteSpace :: "16 word \<Rightarrow> bool" where
  "isWhiteSpace c =
     (c = 0x0009 \<or> c = 0x000B \<or> c = 0x000C \<or> c = 0x0020 \<or> c = 0x00A0 \<or> c = 0x1680
      \<or> (0x2000 \<le> c \<and> c \<le> 0x200A) \<or> c = 0x202F \<or> c = 0x205F \<or> c = 0x3000
      \<or> c = 0xFEFF \<or> isLineTerminator c)"

definition trim :: "js_string \<Rightarrow> js_string" where
  "trim s = rev (dropWhile isWhiteSpace (rev (dropWhile isWhiteSpace s)))"

text \<open>
  The spread \<open>[...query]\<close> iterates a string by code points: a lead surrogate
  followed by a trail surrogate is one element, any other code unit is one by itself.
\<close>

definition isLeadSurrogate :: "16 word \<Rightarrow> bool" where
  "isLeadSurrogate c = (0xD800 \<le> c \<and> c \<le> 0xDBFF)"

definition isTrailSurrogate :: "16 word \<Rightarrow> bool" where
  "isTrailSurrogate c = (0xDC00 \<le> c \<and> c \<le> 0xDFFF)"

fun codePoints :: "js_string \<Rightarrow> js_string list" where
  "codePoints [] = []"
| "codePoints [c] = [[c]]"
| "codePoints (c # d # cs) =
     (if isLeadSurrogate c \<and> isTrailSurrogate d then [c, d] # codePoints cs
      else [c] # codePoints (d # cs))"

text \<open>
  Array reads: \<open>xs[i]\<close> is undefined outside \<open>0 .. length - 1\<close>; \<open>xs.at(i)\<close> counts
  a negative index from the end first.
\<close>

definition array_index :: "'a list \<Rightarrow> int \<Rightarrow> 'a option" where
  "array_index xs i = (if 0 \<le> i \<and> i < int (length xs) then Some (xs ! nat i) else None)"

definition array_at :: "'a list \<Rightarrow> int \<Rightarrow> 'a option" where
  "array_at xs i =
     (let j = (if i < 0 then int (length xs) + i else i)
      in if 0 \<le> j \<and> j < int (length xs) then Some (xs ! nat j) else None)"

section \<open>The console: FluentFinderUI\<close>

text \<open>
  A key event of the text box: a \<open>UnicodeKey\<close> has \<open>ch\<close> and \<open>full\<close> and its
  \<open>name\<close> is null; an \<open>AsciiKey\<close> has \<open>sequence\<close>, \<open>ctrl\<close>, \<open>shift\<close>,
  \<open>meta\<close>, \<open>name\<close> and \<open>full\<close>.
\<close>

datatype KeyInput =
    UnicodeKey js_string js_string
  | AsciiKey js_string bool bool bool js_string js_string

text \<open>
  What the console does to the outside, in the order it does it: the screen is
  rendered or destroyed, a line is printed on standard output (\<open>console.log\<close>), the
  terminal device \<open>ttyIn\<close>/\<open>ttyOut\<close> is released step by step.
\<close>

datatype effect =
    ScreenRender
  | ScreenDestroy
  | ConsoleLog js_string
  | TtyInSetRawMode bool
  | TtyInPause
  | TtyInDestroy
  | TtyOutEnd
  | TtyOutWrite js_string

text \<open>
  The fields of the console that its handlers read and write: \<open>currentResult\<close>; the
  list widget's titles and selected index; the content of the preview box;
  \<open>options.editor\<close>; and the effects so far.
\<close>

record ui_state =
  currentResult :: "ListItem list"
  list_items :: "js_string list"
  list_selected :: int
  preview :: js_string
  options_editor :: OutputType
  effects :: "effect list"

definition DEBUG :: bool where
  "DEBUG = False"

text \<open>
  A method of the console ends by returning or by throwing; a throw keeps what the
  method had written to the console before it. An async method's promise is settled
  the same two ways.
\<close>

datatype settled = Fulfilled ui_state | Rejected Error ui_state

definition state_of :: "settled \<Rightarrow> ui_state" where
  "state_of r = (case r of Fulfilled s \<Rightarrow> s | Rejected e s \<Rightarrow> s)"

text \<open>
  \<open>highlight(code, {language, ignoreIllegals: true})\<close> of the package cli-highlight is
  a parameter of the methods that call it: it returns the text to show or throws (it
  throws on a language it does not know).
\<close>

type_synonym highlighter = "js_string \<Rightarrow> js_string \<Rightarrow> Error + js_string"

subsection \<open>The list widget\<close>

text \<open>
  Modelled from the spec: the list widget is \<open>blessed.list\<close>, a package that is not
  part of the sources. Section 4.4 of the specification gives its cursor movement, which
  clamps within \<open>[0, length - 1]\<close>, and section 3 has the cursor at 0 after every
  replacement of the list. \<open>select\<close> is written here as that clamp, an index below 0
  becoming 0 and an index from the length on becoming \<open>length - 1\<close>; on a list without
  titles the selected index is 0. \<open>up\<close> and \<open>down\<close> select the index that many
  places before or after the selected one. \<open>setItems\<close> replaces the titles and selects
  again: the place of the title that was selected if the new titles have it, else the
  old index, brought into the new list. \<open>clearItems\<close> is \<open>setItems\<close> with no
  title. The console calls \<open>setItems\<close> in \<open>updateList\<close> only, which selects index 0
  after it whenever there is an item; of the selection that \<open>setItems\<close> makes, the console can
  only show the one on an emptied list, the index 0.
\<close>

definition list_select :: "int \<Rightarrow> ui_state \<Rightarrow> ui_state" where
  "list_select index s =
     s\<lparr>list_selected :=
         (if list_items s = [] then 0
          else if index < 0 then 0
          else if int (length (list_items s)) \<le> index then int (length (list_items s)) - 1
          else index)\<rparr>"

definition list_up :: "int \<Rightarrow> ui_state \<Rightarrow> ui_state" where
  "list_up n s = list_select (list_selected s - n) s"

definition list_down :: "int \<Rightarrow> ui_state \<Rightarrow> ui_state" where
  "list_down n s = list_select (list_selected s + n) s"

fun indexOf :: "'a list \<Rightarrow> 'a \<Rightarrow> nat option" where
  "indexOf [] x = None"
| "indexOf (y # ys) x = (if y = x then Some 0 else map_option Suc (indexOf ys x))"

definition list_setItems :: "js_string list \<Rightarrow> ui_state \<Rightarrow> ui_state" where
  "list_setItems titles s =
     (let original = list_items s;
          selected = list_selected s;
          sel = (case array_index original selected of
                   None \<Rightarrow> None
                 | Some title \<Rightarrow> indexOf titles title);
          s1 = s\<lparr>list_items := titles\<rparr>
      in case sel of
           Some j \<Rightarrow> list_select (int j) s1
         | None \<Rightarrow>
             if length titles = length original then list_select selected s1
             else list_select (min selected (int (length titles) - 1)) s1)"

definition list_clearItems :: "ui_state \<Rightarrow> ui_state" where
  "list_clearItems s = list_setItems [] s"

subsection \<open>Screen and terminal\<close>

definition perform :: "effect list \<Rightarrow> ui_state \<Rightarrow> ui_state" where
  "perform es s = s\<lparr>effects := effects s @ es\<rparr>"

definition screen_render :: "ui_state \<Rightarrow> ui_state" where
  "screen_render s = perform [ScreenRender] s"

definition screen_destroy :: "ui_state \<Rightarrow> ui_state" where
  "screen_destroy s = perform [ScreenDestroy] s"

definition destroyTTY :: "ui_state \<Rightarrow> ui_state" where
  "destroyTTY s = perform [TtyInSetRawMode False, TtyInPause, TtyInDestroy, TtyOutEnd] s"

subsection \<open>Methods of the console\<close>

text \<open>
  \<open>updatePreviewWithTitle\<close> calls the highlighter first: when that throws, the
  preview box keeps its content and the screen is not rendered.
\<close>

definition updatePreviewWithTitle ::
  "highlighter \<Rightarrow> js_string \<Rightarrow> js_string option \<Rightarrow> ui_state \<Rightarrow> settled" where
  "updatePreviewWithTitle highlight text language_opt s =
     (case highlight text (case language_opt of None \<Rightarrow> [] | Some l \<Rightarrow> l) of
        Inl e \<Rightarrow> Rejected e s
      | Inr highlighted \<Rightarrow> Fulfilled (screen_render (s\<lparr>preview := highlighted\<rparr>)))"

definition updatePreview :: "highlighter \<Rightarrow> ui_state \<Rightarrow> settled" where
  "updatePreview highlight s =
     (let idx = list_selected s;
          selectedItem = array_index (currentResult s) idx
      in case selectedItem of
           None \<Rightarrow> Rejected (Error (utf16 ''selectedItem is undefined'')) s
         | Some item \<Rightarrow>
             updatePreviewWithTitle highlight (content item) (Some (language item)) s)"

definition convertListItemToListTitle :: "ListItem \<Rightarrow> js_string" where
  "convertListItemToListTitle item = filePath item @ utf16 ''#'' @ entity item"

definition updateList :: "highlighter \<Rightarrow> ListItem list \<Rightarrow> ui_state \<Rightarrow> settled" where
  "updateList highlight items s =
     (let s1 = s\<lparr>currentResult := items\<rparr>;
          s2 = list_clearItems s1;
          s3 = list_setItems (map convertListItemToListTitle items) s2;
          s4 = (if length items > 0 then list_select 0 s3 else s3);
          item = array_at items 0
      in updatePreviewWithTitle highlight
           (case item of None \<Rightarrow> [] | Some i \<Rightarrow> content i)
           (Some (case item of None \<Rightarrow> [] | Some i \<Rightarrow> language i))
           s4)"

text \<open>
  \<open>showResult\<close>: the output type defaults to \<open>nvim\<close> when the argument is
  undefined (\<open>None\<close>).
\<close>

definition showResult ::
  "(ListItem \<Rightarrow> js_string) \<Rightarrow> ListItem \<Rightarrow> OutputType option \<Rightarrow> ui_state \<Rightarrow> ui_state" where
  "showResult JSON_stringify result outputType_opt s =
     (let outputType = (case outputType_opt of None \<Rightarrow> Nvim | Some t \<Rightarrow> t);
          query = JSON_stringify result;
          query = (if outputType = Nvim \<or> outputType = Vim
                   then utf16 ''<cmd>tabf +''
                        @ Number_toString (row (start (cursorInfo result)) + 1)
                        @ utf16 '' '' @ filePath result @ utf16 ''<CR>''
                   else query);
          s1 = perform [ConsoleLog query] s
      in if DEBUG then perform [TtyOutWrite query, TtyOutWrite [0x0A]] s1 else s1)"

definition toListItem :: "SearchResult \<Rightarrow> ListItem" where
  "toListItem r =
     \<lparr> filePath = sr_file r,
       entity = sr_entity r,
       content = contentSnippet r,
       language = sr_language r,
       cursorInfo = sr_cursorInfo r \<rparr>"

text \<open>
  \<open>handleQueryChange\<close> is an async function with one \<open>await\<close>, on
  \<open>this.core.search\<close>. It runs in two steps of the event loop: from the key event to
  the \<open>await\<close> (or to a return or a throw before it), and from the settled search to
  the end. Other events may run between the two. A throw inside it rejects the promise it
  returned. The value of the text box is read at the start and is a parameter here.
\<close>

datatype suspended = Done settled | Await QueryProps ui_state

definition search_call :: "js_string \<Rightarrow> ui_state \<Rightarrow> suspended" where
  "search_call query s =
     Await \<lparr> queryText = query, k = 20, isJsonOutput = True, dbPath = utf16 '':memory:'' \<rparr> s"

definition handleQueryChange_begin ::
  "highlighter \<Rightarrow> (ListItem \<Rightarrow> js_string) \<Rightarrow> js_string \<Rightarrow> KeyInput \<Rightarrow> ui_state \<Rightarrow> suspended" where
  "handleQueryChange_begin highlight JSON_stringify input_value key s =
     (let query = trim input_value in
      case key of
        UnicodeKey ch full \<Rightarrow> search_call (query @ full) s
      | AsciiKey sequence ctrl shift meta name full \<Rightarrow>
          if name = [] then search_call (query @ full) s
          else if name = utf16 ''backspace'' then
            search_call (concat (butlast (codePoints query))) s
          else if name = utf16 ''enter'' then
            (let listIdx = list_selected s;
                 selectedItem = array_at (currentResult s) listIdx
             in case selectedItem of
                  None \<Rightarrow> search_call query s
                | Some item \<Rightarrow>
                    search_call query
                      (perform [TtyInSetRawMode False, TtyInPause, TtyInDestroy, TtyOutEnd]
                        (showResult JSON_stringify item (Some (options_editor s))
                          (screen_destroy s))))
          else if name = utf16 ''up'' then Done (updatePreview highlight (list_up 1 s))
          else if name = utf16 ''down'' then Done (updatePreview highlight (list_down 1 s))
          else if \<not> (ctrl \<or> meta \<or> shift) \<and> length name = 1 then
            search_call (query @ name) s
          else if ctrl \<and> name = utf16 ''c'' then
            search_call query (destroyTTY (screen_destroy s))
          else search_call query s)"

definition handleQueryChange_resume ::
  "highlighter \<Rightarrow> Error + SearchResult list \<Rightarrow> ui_state \<Rightarrow> settled" where
  "handleQueryChange_resume highlight response s =
     (case response of
        Inl e \<Rightarrow> Rejected e s
      | Inr res \<Rightarrow>
          (case updateList highlight (map toListItem (sort_key rank res)) s of
             Rejected e s1 \<Rightarrow> Rejected e s1
           | Fulfilled s1 \<Rightarrow> Fulfilled (screen_render s1)))"

text \<open>
  The whole handler when the search settles before any other event: \<open>core\<close> is what
  \<open>this.core.search\<close> settles with for the properties it is called with.
\<close>

definition handleQueryChange ::
  "highlighter \<Rightarrow> (QueryProps \<Rightarrow> Error + SearchResult list) \<Rightarrow> (ListItem \<Rightarrow> js_string)
     \<Rightarrow> js_string \<Rightarrow> KeyInput \<Rightarrow> ui_state \<Rightarrow> settled" where
  "handleQueryChange highlight core JSON_stringify input_value key s =
     (case handleQueryChange_begin highlight JSON_stringify input_value key s of
        Done r \<Rightarrow> r
      | Await props s1 \<Rightarrow> handleQueryChange_resume highlight (core props) s1)"

text \<open>
  \<open>bindInputEvents\<close>: the keypress listener calls \<open>handleQueryChange\<close> and drops
  the promise. The listener itself returns; a rejection of the promise has no handler.
\<close>

datatype loop_outcome = Handled ui_state | UnhandledRejection Error ui_state

definition keypress_listener ::
  "highlighter \<Rightarrow> (QueryProps \<Rightarrow> Error + SearchResult list) \<Rightarrow> (ListItem \<Rightarrow> js_string)
     \<Rightarrow> js_string \<Rightarrow> KeyInput \<Rightarrow> ui_state \<Rightarrow> loop_outcome" where
  "keypress_listener highlight core JSON_stringify input_value key s =
     (case handleQueryChange highlight core JSON_stringify input_value key s of
        Fulfilled s1 \<Rightarrow> Handled s1
      | Rejected e s1 \<Rightarrow> UnhandledRejection e s1)"

text \<open>\<open>bindKeys\<close>: the screen's handler of escape, q and Ctrl-C.\<close>

definition quit_handler :: "ui_state \<Rightarrow> ui_state" where
  "quit_handler s = destroyTTY (screen_destroy s)"

subsection \<open>The event loop\<close>

text \<open>
  One thread runs the handlers, one event at a time: a key event of the text box starts
  \<open>handleQueryChange\<close>; a search that was awaited settles and its handler goes on;
  the screen gets escape, q or Ctrl-C. Any number of searches may be awaited at once and
  they settle in any order. The source gives a search no number; the session numbers
  the searches in the order of their calls, so that a property can name them. A promise
  that is rejected has no handler; the session keeps the errors of such promises.
\<close>

record session =
  ui :: ui_state
  next_seq :: nat
  in_flight :: "(nat \<times> QueryProps) list"
  unhandled :: "Error list"

datatype event =
    KeyPress js_string KeyInput
  | SearchSettled nat "Error + SearchResult list"
  | QuitKey

definition settle :: "session \<Rightarrow> settled \<Rightarrow> session" where
  "settle ss r =
     (case r of
        Fulfilled s1 \<Rightarrow> ss\<lparr>ui := s1\<rparr>
      | Rejected e s1 \<Rightarrow> ss\<lparr>ui := s1, unhandled := unhandled ss @ [e]\<rparr>)"

definition step ::
  "highlighter \<Rightarrow> (ListItem \<Rightarrow> js_string) \<Rightarrow> session \<Rightarrow> event \<Rightarrow> session" where
  "step highlight JSON_stringify ss ev =
     (case ev of
        KeyPress input_value key \<Rightarrow>
          (case handleQueryChange_begin highlight JSON_stringify input_value key (ui ss) of
             Done r \<Rightarrow> settle ss r
           | Await props s1 \<Rightarrow>
               ss\<lparr>ui := s1, next_seq := next_seq ss + 1,
                  in_flight := in_flight ss @ [(next_seq ss, props)]\<rparr>)
      | SearchSettled n response \<Rightarrow>
          (if n \<in> fst ` set (in_flight ss)
           then settle (ss\<lparr>in_flight := filter (\<lambda>p. fst p \<noteq> n) (in_flight ss)\<rparr>)
                  (handleQueryChange_resume highlight response (ui ss))
           else ss)
      | QuitKey \<Rightarrow> ss\<lparr>ui := quit_handler (ui ss)\<rparr>)"

definition run ::
  "highlighter \<Rightarrow> (ListItem \<Rightarrow> js_string) \<Rightarrow> session \<Rightarrow> event list \<Rightarrow> session" where
  "run highlight JSON_stringify ss evs = foldl (step highlight JSON_stringify) ss evs"




definition isNavigation :: "KeyInput \<Rightarrow> bool" where
  "isNavigation key =
     (case key of
        AsciiKey sequence ctrl shift meta name full \<Rightarrow> name = utf16 ''up'' \<or> name = utf16 ''down''
      | UnicodeKey ch full \<Rightarrow> False)"



text \<open>
  The text and the language that \<open>updateList\<close> hands to the highlighter: those of
  the first item, or two empty strings; and a highlighter that takes every item of a list.
\<close>

definition first_preview :: "ListItem list \<Rightarrow> js_string \<times> js_string" where
  "first_preview items =
     (case array_at items 0 of None \<Rightarrow> ([], []) | Some i \<Rightarrow> (content i, language i))"


section \<open>Example values\<close>

text \<open>
  Concrete values for checking the theorems at an input: an item at row 9 (line 10) of
  \<open>./src/index.ts\<close>, rows whose distance is a natural number, \<open>toFixed\<close> on such
  a number, stand-ins for \<open>JSON.stringify\<close> and for the highlighter (which knows every
  language but \<open>nolang\<close>), a console that shows nothing yet, and
  keys by name.
\<close>

definition example_cursor :: CursorInfo where
  "example_cursor = \<lparr> start = \<lparr> row = 9, column = 0 \<rparr>, end_pos = \<lparr> row = 12, column = 1 \<rparr> \<rparr>"

definition example_item :: "js_string \<Rightarrow> ListItem" where
  "example_item name =
     \<lparr> filePath = utf16 ''./src/index.ts'', entity = name,
       content = utf16 ''function f() {}'', language = utf16 ''typescript'',
       cursorInfo = example_cursor \<rparr>"

definition example_row :: "js_string \<Rightarrow> nat \<Rightarrow> nat ChunkRow" where
  "example_row name d =
     \<lparr> row_content = utf16 ''function f() {}'', filepath = utf16 ''./src/index.ts'',
       row_fileName = utf16 ''index.ts'', inlineDocument = [], row_parentInfo = [],
       row_entity = name, row_language = utf16 ''typescript'',
       row_cursorInfo = example_cursor, distance = d \<rparr>"

definition example_toFixed :: "nat \<Rightarrow> nat \<Rightarrow> js_string" where
  "example_toFixed d n = Number_toString d @ utf16 ''.'' @ replicate n 0x30"

definition example_props :: "bool \<Rightarrow> QueryProps" where
  "example_props json =
     \<lparr> queryText = utf16 ''foo'', k = 20, isJsonOutput = json, dbPath = utf16 '':memory:'' \<rparr>"

definition example_highlight :: highlighter where
  "example_highlight code lang =
     (if lang = utf16 ''nolang''
      then Inl (Error (utf16 ''Unknown language: '' @ [0x22] @ lang @ [0x22]))
      else Inr code)"

definition example_stringify :: "ListItem \<Rightarrow> js_string" where
  "example_stringify item = utf16 ''{}''"

definition example_state :: ui_state where
  "example_state =
     \<lparr> currentResult = [], list_items = [], list_selected = 0, preview = [],
       options_editor = Cmd, effects = [] \<rparr>"

definition key_named :: "string \<Rightarrow> KeyInput" where
  "key_named n = AsciiKey [] False False False (utf16 n) (utf16 n)"

definition example_result :: "js_string \<Rightarrow> SearchResult" where
  "example_result name = toSearchResult example_toFixed True (0, example_row name 0)"

definition new_session :: "ui_state \<Rightarrow> session" where
  "new_session s = \<lparr> ui = s, next_seq = 0, in_flight = [], unhandled = [] \<rparr>"

section \<open>Properties the specification asks for, as predicates\<close>

text \<open>
  The specification's order on submission: every line on standard output is printed
  after the terminal device was released, that is after \<open>ttyOut.end()\<close>, the last
  step of the release. The flag says whether the release has happened.
\<close>

fun output_after_release :: "bool \<Rightarrow> effect list \<Rightarrow> bool" where
  "output_after_release released [] = True"
| "output_after_release released (ConsoleLog q # es) =
     (released \<and> output_after_release released es)"
| "output_after_release released (TtyOutEnd # es) = output_after_release True es"
| "output_after_release released (e # es) = output_after_release released es"

text \<open>
  The specification's monotonic admission: of the searches that have resolved, the
  response of the one with the greatest number.
\<close>

fun completed :: "event list \<Rightarrow> (nat \<times> SearchResult list) list" where
  "completed [] = []"
| "completed (SearchSettled n (Inr res) # evs) = (n, res) # completed evs"
| "completed (ev # evs) = completed evs"

definition highest_completed :: "event list \<Rightarrow> SearchResult list option" where
  "highest_completed evs =
     (case completed evs of
        [] \<Rightarrow> None
      | c # cs \<Rightarrow> Some (snd (foldl (\<lambda>best p. if fst best \<le> fst p then p else best) c cs)))"

section \<open>Properties of the cores\<close>

lemma toSearchResult_simps:
  "rank (toSearchResult toFixed isJson (i, r)) = int i + 1"
  "score (toSearchResult toFixed isJson (i, r)) = toFixed (distance r) 4"
  "contentSnippet (toSearchResult toFixed isJson (i, r)) =
     (if isJson then row_content r else take 100 (row_content r) @ utf16 ''...'')"
  by (simp_all add: toSearchResult_def)

lemma rank_toSearchResults:
  "map rank (map (toSearchResult toFixed isJson) (enumerate n results))
     = map (\<lambda>i. int i + 1) [n..<n + length results]"
  by (induction results arbitrary: n) (simp_all add: toSearchResult_def upt_rec)

lemma sorted_ranks: "sorted (map (\<lambda>i. int i + 1) [m..<n])"
  by (simp add: sorted_map sorted_wrt_iff_nth_less)

lemma search_sorted:
  assumes "FlfDirCore_search toFixed db props = Inr res"
  shows "sort_key rank res = res"
proof -
  from assms obtain results where
    "res = map (toSearchResult toFixed (isJsonOutput props)) (enumerate 0 results)"
    by (auto simp: FlfDirCore_search_def split: option.splits sum.splits)
  then have "sorted (map rank res)"
    using rank_toSearchResults [of toFixed "isJsonOutput props" 0 results] sorted_ranks by simp
  then show ?thesis by (rule sort_key_id_if_sorted)
qed

lemma digit_not_terminator: "d < 10 \<Longrightarrow> \<not> isLineTerminator (digit d)"
proof -
  assume "d < 10"
  then have "d \<in> {0,1,2,3,4,5,6,7,8,9}" by auto
  then show ?thesis by (auto simp: digit_def isLineTerminator_def)
qed

lemma Number_toString_no_terminator: "filter isLineTerminator (Number_toString n) = []"
proof (induction n rule: Number_toString.induct)
  case (1 n)
  show ?case
  proof (cases "n < 10")
    case True
    then show ?thesis by (simp add: Number_toString.simps [of n] digit_not_terminator)
  next
    case False
    then show ?thesis using 1 by (simp add: Number_toString.simps [of n] digit_not_terminator)
  qed
qed

lemma literal_no_terminator:
  "filter isLineTerminator (utf16 ''<cmd>tabf +'') = []"
  "filter isLineTerminator (utf16 '' '') = []"
  "filter isLineTerminator (utf16 ''<CR>'') = []"
  "filter isLineTerminator (utf16 ''<cmd>call FlfJumpToBufWithLine('') = []"
  "filter isLineTerminator (utf16 '','') = []"
  "filter isLineTerminator (utf16 '')<CR>'') = []"
  "\<not> isLineTerminator 0x22"
  by (simp_all add: utf16_def isLineTerminator_def)

text \<open>
  C6. Where the database resolves with rows, \<open>search\<close> of either core resolves with a
  list as long as the rows in which the element at index \<open>i\<close> has rank \<open>i + 1\<close>,
  so the ranks are 1, 2, ... in list order, and has as score \<open>toFixed(4)\<close> of the
  distance of row \<open>i\<close>.
\<close>

theorem search_rank_and_score:
  assumes "searchSimilar (queryText props) (k props) = Inr results"
  shows "\<exists>rs. FlfDirCore_search toFixed (Some searchSimilar) props = Inr rs
           \<and> FlfBufferCore_search toFixed (Some searchSimilar) props = Inr rs
           \<and> length rs = length results
           \<and> (\<forall>i<length rs. rank (rs ! i) = int i + 1
                 \<and> score (rs ! i) = toFixed (distance (results ! i)) 4)
           \<and> map rank rs = map (\<lambda>i. int i + 1) [0..<length rs]"
proof -
  let ?rs = "map (toSearchResult toFixed (isJsonOutput props)) (enumerate 0 results)"
  have d: "FlfDirCore_search toFixed (Some searchSimilar) props = Inr ?rs"
    using assms by (simp add: FlfDirCore_search_def)
  have b: "FlfBufferCore_search toFixed (Some searchSimilar) props = Inr ?rs"
    using assms by (simp add: FlfBufferCore_search_def)
  have n: "\<forall>i<length ?rs. rank (?rs ! i) = int i + 1
             \<and> score (?rs ! i) = toFixed (distance (results ! i)) 4"
    by (simp add: nth_enumerate_eq toSearchResult_simps)
  have r: "map rank ?rs = map (\<lambda>i. int i + 1) [0..<length ?rs]"
    using rank_toSearchResults [of toFixed "isJsonOutput props" 0 results] by simp
  from d b n r show ?thesis by simp
qed

theorem search_rank_and_score_witness:
  "\<exists>rs. FlfDirCore_search example_toFixed
           (Some (\<lambda>q n. Inr [example_row (utf16 ''f'') 0, example_row (utf16 ''g'') 1]))
           (example_props True) = Inr rs
        \<and> FlfBufferCore_search example_toFixed
           (Some (\<lambda>q n. Inr [example_row (utf16 ''f'') 0, example_row (utf16 ''g'') 1]))
           (example_props True) = Inr rs
        \<and> length rs = 2
        \<and> (\<forall>i<length rs. rank (rs ! i) = int i + 1
              \<and> score (rs ! i) = example_toFixed
                   (distance ([example_row (utf16 ''f'') 0, example_row (utf16 ''g'') 1] ! i)) 4)
        \<and> map rank rs = map (\<lambda>i. int i + 1) [0..<length rs]"
  using search_rank_and_score
    [of "\<lambda>q n. Inr [example_row (utf16 ''f'') 0, example_row (utf16 ''g'') 1]"
        "example_props True" "[example_row (utf16 ''f'') 0, example_row (utf16 ''g'') 1]"
        example_toFixed]
  by (simp add: eval_nat_numeral)

text \<open>
  C10. Where the database resolves with rows, the snippet of the element at index
  \<open>i\<close> is the whole content of row \<open>i\<close> when \<open>isJsonOutput\<close> is true, and
  otherwise its first 100 code units followed by three dots; a content of fewer than
  100 code units is then followed by the dots unshortened.
\<close>

theorem search_contentSnippet:
  assumes "searchSimilar (queryText props) (k props) = Inr results"
  shows "\<exists>rs. FlfDirCore_search toFixed (Some searchSimilar) props = Inr rs
           \<and> FlfBufferCore_search toFixed (Some searchSimilar) props = Inr rs
           \<and> length rs = length results
           \<and> (\<forall>i<length rs.
                 contentSnippet (rs ! i) =
                   (if isJsonOutput props then row_content (results ! i)
                    else take 100 (row_content (results ! i)) @ utf16 ''...'')
                 \<and> (\<not> isJsonOutput props \<and> length (row_content (results ! i)) < 100
                      \<longrightarrow> contentSnippet (rs ! i) = row_content (results ! i) @ utf16 ''...''))"
proof -
  let ?rs = "map (toSearchResult toFixed (isJsonOutput props)) (enumerate 0 results)"
  have d: "FlfDirCore_search toFixed (Some searchSimilar) props = Inr ?rs"
    using assms by (simp add: FlfDirCore_search_def)
  have b: "FlfBufferCore_search toFixed (Some searchSimilar) props = Inr ?rs"
    using assms by (simp add: FlfBufferCore_search_def)
  have n: "\<forall>i<length ?rs.
             contentSnippet (?rs ! i) =
               (if isJsonOutput props then row_content (results ! i)
                else take 100 (row_content (results ! i)) @ utf16 ''...'')
             \<and> (\<not> isJsonOutput props \<and> length (row_content (results ! i)) < 100
                  \<longrightarrow> contentSnippet (?rs ! i) = row_content (results ! i) @ utf16 ''...'')"
    by (simp add: nth_enumerate_eq toSearchResult_simps)
  from d b n show ?thesis by simp
qed

theorem search_contentSnippet_witness:
  "\<exists>rs. FlfDirCore_search example_toFixed
           (Some (\<lambda>q n. Inr [example_row (utf16 ''f'') 0])) (example_props False) = Inr rs
        \<and> length rs = 1
        \<and> contentSnippet (rs ! 0) = utf16 ''function f() {}'' @ utf16 ''...''"
proof -
  have "isJsonOutput (example_props False) = False"
    by (simp add: example_props_def)
  moreover have "row_content (example_row (utf16 ''f'') 0) = utf16 ''function f() {}''"
    by (simp add: example_row_def)
  moreover have "length (utf16 ''function f() {}'') < 100"
    by (simp add: utf16_def)
  ultimately show ?thesis
    using search_contentSnippet
      [of "\<lambda>q n. Inr [example_row (utf16 ''f'') 0]" "example_props False"
          "[example_row (utf16 ''f'') 0]" example_toFixed]
    by auto
qed

lemma unat_digit: "d < 10 \<Longrightarrow> unat (digit d) = 48 + d"
proof -
  assume "d < 10"
  then have "d \<in> {0,1,2,3,4,5,6,7,8,9}" by auto
  then show ?thesis by (auto simp: digit_def)
qed

lemma isDigit_digit: "d < 10 \<Longrightarrow> isDigit (digit d)"
  by (simp add: isDigit_def word_le_nat_alt unat_digit)

lemma decimal_value_snoc: "decimal_value (ds @ [c]) = 10 * decimal_value ds + (unat c - 48)"
  by (simp add: decimal_value_def)

lemma Number_toString_value: "decimal_value (Number_toString n) = n"
proof (induction n rule: Number_toString.induct)
  case (1 n)
  show ?case
  proof (cases "n < 10")
    case True
    then show ?thesis
      by (simp add: Number_toString.simps [of n] decimal_value_def unat_digit)
  next
    case False
    then show ?thesis
      using 1 by (simp add: Number_toString.simps [of n] decimal_value_snoc unat_digit)
  qed
qed

lemma Number_toString_digits: "list_all isDigit (Number_toString n)"
proof (induction n rule: Number_toString.induct)
  case (1 n)
  show ?case
  proof (cases "n < 10")
    case True
    then show ?thesis by (simp add: Number_toString.simps [of n] isDigit_digit)
  next
    case False
    then show ?thesis using 1 by (simp add: Number_toString.simps [of n] isDigit_digit)
  qed
qed

lemma Number_toString_not_Nil: "Number_toString n \<noteq> []"
  by (simp add: Number_toString.simps [of n])

lemma Number_toString_leading: "0 < n \<Longrightarrow> hd (Number_toString n) \<noteq> 0x30"
proof (induction n rule: Number_toString.induct)
  case (1 n)
  show ?case
  proof (cases "n < 10")
    case True
    with 1(2) have "unat (digit n) \<noteq> unat (0x30 :: 16 word)"
      by (simp add: unat_digit)
    then have "digit n \<noteq> 0x30" by auto
    with True show ?thesis by (simp add: Number_toString.simps [of n])
  next
    case False
    then have "0 < n div 10" by simp
    with 1(1) False have "hd (Number_toString (n div 10)) \<noteq> 0x30" by simp
    with False show ?thesis
      by (simp add: Number_toString.simps [of n] Number_toString_not_Nil)
  qed
qed

lemma formatResult_terminators:
  assumes "ed = Nvim \<or> ed = Vim"
  shows "filter isLineTerminator (FlfDirCore_formatResult J r ed)
           = filter isLineTerminator (filePath r)"
    and "filter isLineTerminator (FlfBufferCore_formatResult J r ed)
           = filter isLineTerminator (filePath r)"
  using assms
  by (auto simp: FlfDirCore_formatResult_def FlfBufferCore_formatResult_def
        Number_toString_no_terminator literal_no_terminator)

text \<open>
  C5 (amended). For nvim and vim the directory core and the console's \<open>showResult\<close>
  print \<open><cmd>tabf +LINE PATH<CR>\<close> and the buffer core prints
  \<open><cmd>call FlfJumpToBufWithLine("PATH","LINE")<CR>\<close>, where LINE is the decimal
  numeral, without a leading zero, of the start row plus 1 and PATH is the item's file
  path as it is. The command is a single line exactly when the path has no line
  terminator. For cmd and emacs all three give \<open>JSON.stringify\<close> of the item.
\<close>

theorem formatResult_by_editor:
  "\<exists>digits. decimal_value digits = row (start (cursorInfo r)) + 1
      \<and> list_all isDigit digits \<and> hd digits \<noteq> 0x30
      \<and> FlfDirCore_formatResult J r ed =
          (if ed = Nvim \<or> ed = Vim
           then utf16 ''<cmd>tabf +'' @ digits @ utf16 '' '' @ filePath r @ utf16 ''<CR>''
           else J r)
      \<and> FlfBufferCore_formatResult J r ed =
          (if ed = Nvim \<or> ed = Vim
           then utf16 ''<cmd>call FlfJumpToBufWithLine('' @ [0x22] @ filePath r @ [0x22]
                @ utf16 '','' @ [0x22] @ digits @ [0x22] @ utf16 '')<CR>''
           else J r)
      \<and> effects (showResult J r (Some ed) s)
          = effects s @ [ConsoleLog (FlfDirCore_formatResult J r ed)]
      \<and> (ed = Nvim \<or> ed = Vim \<longrightarrow>
           (isSingleLine (FlfDirCore_formatResult J r ed) \<longleftrightarrow> isSingleLine (filePath r))
           \<and> (isSingleLine (FlfBufferCore_formatResult J r ed) \<longleftrightarrow> isSingleLine (filePath r)))"
proof -
  let ?d = "Number_toString (row (start (cursorInfo r)) + 1)"
  have "decimal_value ?d = row (start (cursorInfo r)) + 1"
    by (rule Number_toString_value)
  moreover have "list_all isDigit ?d"
    by (rule Number_toString_digits)
  moreover have "hd ?d \<noteq> 0x30"
    by (rule Number_toString_leading) simp
  moreover have "FlfDirCore_formatResult J r ed =
          (if ed = Nvim \<or> ed = Vim
           then utf16 ''<cmd>tabf +'' @ ?d @ utf16 '' '' @ filePath r @ utf16 ''<CR>''
           else J r)"
    by (simp add: FlfDirCore_formatResult_def)
  moreover have "FlfBufferCore_formatResult J r ed =
          (if ed = Nvim \<or> ed = Vim
           then utf16 ''<cmd>call FlfJumpToBufWithLine('' @ [0x22] @ filePath r @ [0x22]
                @ utf16 '','' @ [0x22] @ ?d @ [0x22] @ utf16 '')<CR>''
           else J r)"
    by (simp add: FlfBufferCore_formatResult_def)
  moreover have "effects (showResult J r (Some ed) s)
          = effects s @ [ConsoleLog (FlfDirCore_formatResult J r ed)]"
    by (simp add: showResult_def FlfDirCore_formatResult_def DEBUG_def perform_def)
  moreover have "ed = Nvim \<or> ed = Vim \<longrightarrow>
           (isSingleLine (FlfDirCore_formatResult J r ed) \<longleftrightarrow> isSingleLine (filePath r))
           \<and> (isSingleLine (FlfBufferCore_formatResult J r ed) \<longleftrightarrow> isSingleLine (filePath r))"
    by (simp add: isSingleLine_def formatResult_terminators)
  ultimately show ?thesis by blast
qed

lemma example_line: "Number_toString 10 = utf16 ''10''"
  by code_simp

theorem formatResult_by_editor_witness:
  "(\<exists>digits. decimal_value digits = 10 \<and> list_all isDigit digits \<and> hd digits \<noteq> 0x30
      \<and> FlfDirCore_formatResult example_stringify (example_item (utf16 ''main'')) Nvim
          = utf16 ''<cmd>tabf +'' @ digits @ utf16 '' '' @ utf16 ''./src/index.ts''
            @ utf16 ''<CR>''
      \<and> isSingleLine
          (FlfDirCore_formatResult example_stringify (example_item (utf16 ''main'')) Nvim))
   \<and> FlfDirCore_formatResult example_stringify (example_item (utf16 ''main'')) Nvim
       = utf16 ''<cmd>tabf +10 ./src/index.ts<CR>''
   \<and> FlfDirCore_formatResult example_stringify (example_item (utf16 ''main'')) Cmd
       = example_stringify (example_item (utf16 ''main''))"
proof -
  have p: "filePath (example_item (utf16 ''main'')) = utf16 ''./src/index.ts''"
    and r: "row (start (cursorInfo (example_item (utf16 ''main'')))) = 9"
    by (simp_all add: example_item_def example_cursor_def)
  have t: "isSingleLine (utf16 ''./src/index.ts'')"
    by (simp add: isSingleLine_def utf16_def isLineTerminator_def)
  have a: "utf16 ''<cmd>tabf +'' @ utf16 ''10'' @ utf16 '' '' @ utf16 ''./src/index.ts'' @ utf16 ''<CR>''
     = utf16 ''<cmd>tabf +10 ./src/index.ts<CR>''"
    by (simp add: utf16_def)
  have e: "FlfDirCore_formatResult example_stringify (example_item (utf16 ''main'')) Nvim
       = utf16 ''<cmd>tabf +10 ./src/index.ts<CR>''"
    by (simp add: FlfDirCore_formatResult_def p r example_line a)
  have c: "FlfDirCore_formatResult example_stringify (example_item (utf16 ''main'')) Cmd
       = example_stringify (example_item (utf16 ''main''))"
    by (simp add: FlfDirCore_formatResult_def)
  from formatResult_by_editor
    [of "example_item (utf16 ''main'')" example_stringify Nvim example_state]
  have "\<exists>digits. decimal_value digits = 10 \<and> list_all isDigit digits \<and> hd digits \<noteq> 0x30
      \<and> FlfDirCore_formatResult example_stringify (example_item (utf16 ''main'')) Nvim
          = utf16 ''<cmd>tabf +'' @ digits @ utf16 '' '' @ utf16 ''./src/index.ts''
            @ utf16 ''<CR>''
      \<and> isSingleLine
          (FlfDirCore_formatResult example_stringify (example_item (utf16 ''main'')) Nvim)"
    by (simp add: p r t) blast
  with e c show ?thesis by blast
qed

text \<open>
  C5 as stated fails for a file path with a line feed in it: the command for the path
  \<open>a\<close>, line feed, \<open>b\<close> is two lines.
\<close>

theorem path_with_line_feed_gives_two_lines:
  "\<not> isSingleLine
       (FlfDirCore_formatResult example_stringify
          ((example_item (utf16 ''main''))\<lparr>filePath := utf16 ''a'' @ [0x0A] @ utf16 ''b''\<rparr>) Nvim)
   \<and> \<not> isSingleLine
       (FlfBufferCore_formatResult example_stringify
          ((example_item (utf16 ''main''))\<lparr>filePath := utf16 ''a'' @ [0x0A] @ utf16 ''b''\<rparr>) Vim)"
  by (simp add: isSingleLine_def formatResult_terminators isLineTerminator_def utf16_def)

section \<open>Properties of the console\<close>

lemma perform_fields [simp]:
  "currentResult (perform es s) = currentResult s"
  "list_items (perform es s) = list_items s"
  "list_selected (perform es s) = list_selected s"
  "preview (perform es s) = preview s"
  "options_editor (perform es s) = options_editor s"
  "effects (perform es s) = effects s @ es"
  by (simp_all add: perform_def)

lemma list_select_fields [simp]:
  "currentResult (list_select i s) = currentResult s"
  "list_items (list_select i s) = list_items s"
  "preview (list_select i s) = preview s"
  "options_editor (list_select i s) = options_editor s"
  "effects (list_select i s) = effects s"
  by (simp_all add: list_select_def)

lemma list_select_in_range:
  "list_items s \<noteq> [] \<Longrightarrow>
   0 \<le> list_selected (list_select i s)
   \<and> list_selected (list_select i s) < int (length (list_items s))"
  by (auto simp: list_select_def)


lemma list_select_0: "list_selected (list_select 0 s) = 0"
  by (simp add: list_select_def)

lemma list_setItems_fields [simp]:
  "currentResult (list_setItems ts s) = currentResult s"
  "list_items (list_setItems ts s) = ts"
  "preview (list_setItems ts s) = preview s"
  "options_editor (list_setItems ts s) = options_editor s"
  "effects (list_setItems ts s) = effects s"
  by (simp_all add: list_setItems_def Let_def split: option.splits)

lemma list_setItems_empty: "list_selected (list_setItems [] s) = 0"
  by (simp add: list_setItems_def Let_def list_select_def split: option.splits)

lemma state_of_simps [simp]:
  "state_of (Fulfilled s) = s" "state_of (Rejected e s) = s"
  by (simp_all add: state_of_def)

lemma updatePreviewWithTitle_state [simp]:
  "currentResult (state_of (updatePreviewWithTitle h t l s)) = currentResult s"
  "list_items (state_of (updatePreviewWithTitle h t l s)) = list_items s"
  "list_selected (state_of (updatePreviewWithTitle h t l s)) = list_selected s"
  "options_editor (state_of (updatePreviewWithTitle h t l s)) = options_editor s"
  by (simp_all add: updatePreviewWithTitle_def screen_render_def split: sum.splits)

lemma updatePreviewWithTitle_cases:
  "h t l = Inl e \<Longrightarrow> updatePreviewWithTitle h t (Some l) s = Rejected e s"
  "h t l = Inr x \<Longrightarrow>
     updatePreviewWithTitle h t (Some l) s = Fulfilled (screen_render (s\<lparr>preview := x\<rparr>))"
  by (simp_all add: updatePreviewWithTitle_def)

lemma updateList_state:
  "currentResult (state_of (updateList h items s)) = items"
  "list_items (state_of (updateList h items s)) = map convertListItemToListTitle items"
  "list_selected (state_of (updateList h items s)) = 0"
  "options_editor (state_of (updateList h items s)) = options_editor s"
  by (simp_all add: updateList_def Let_def list_clearItems_def list_select_0 list_setItems_empty)

lemma updateList_rejected:
  assumes "h (fst (first_preview items)) (snd (first_preview items)) = Inl e"
  shows "\<exists>s1. updateList h items s = Rejected e s1 \<and> effects s1 = effects s"
  using assms
  by (auto simp: updateList_def Let_def first_preview_def updatePreviewWithTitle_def
        list_clearItems_def split: option.splits)

lemma updateList_fulfilled:
  assumes "h (fst (first_preview items)) (snd (first_preview items)) = Inr x"
  shows "\<exists>s1. updateList h items s = Fulfilled s1 \<and> effects s1 = effects s @ [ScreenRender]"
  using assms
  by (auto simp: updateList_def Let_def first_preview_def updatePreviewWithTitle_def
        list_clearItems_def screen_render_def split: option.splits)

lemma resume_state:
  "currentResult (state_of (handleQueryChange_resume h (Inr res) s))
     = map toListItem (sort_key rank res)"
  "list_items (state_of (handleQueryChange_resume h (Inr res) s))
     = map convertListItemToListTitle (map toListItem (sort_key rank res))"
  "list_selected (state_of (handleQueryChange_resume h (Inr res) s)) = 0"
proof -
  let ?u = "updateList h (map toListItem (sort_key rank res)) s"
  have "state_of (handleQueryChange_resume h (Inr res) s) = state_of ?u
        \<or> state_of (handleQueryChange_resume h (Inr res) s) = screen_render (state_of ?u)"
    by (cases ?u) (simp_all add: handleQueryChange_resume_def)
  then show
    "currentResult (state_of (handleQueryChange_resume h (Inr res) s))
       = map toListItem (sort_key rank res)"
    "list_items (state_of (handleQueryChange_resume h (Inr res) s))
       = map convertListItemToListTitle (map toListItem (sort_key rank res))"
    "list_selected (state_of (handleQueryChange_resume h (Inr res) s)) = 0"
    by (auto simp: screen_render_def updateList_state)
qed

lemma resume_fulfilled:
  assumes "h (fst (first_preview (map toListItem (sort_key rank res))))
             (snd (first_preview (map toListItem (sort_key rank res)))) = Inr x"
  shows "\<exists>s1. handleQueryChange_resume h (Inr res) s = Fulfilled s1
           \<and> effects s1 = effects s @ [ScreenRender, ScreenRender]"
  using assms updateList_fulfilled [of h "map toListItem (sort_key rank res)" x s]
  by (auto simp: handleQueryChange_resume_def screen_render_def)

lemma resume_rejected:
  assumes "h (fst (first_preview (map toListItem (sort_key rank res))))
             (snd (first_preview (map toListItem (sort_key rank res)))) = Inl e"
  shows "\<exists>s1. handleQueryChange_resume h (Inr res) s = Rejected e s1 \<and> effects s1 = effects s"
  using assms updateList_rejected [of h "map toListItem (sort_key rank res)" e s]
  by (auto simp: handleQueryChange_resume_def)

text \<open>
  C7. A response of \<open>search\<close> is already in ascending rank order, so the console's
  \<open>sort\<close> by rank returns it unchanged, and when the handler goes on with the
  response the list it shows is the response's items in the backend's order, one title
  per item. The list is written before the highlighter is called: the handler ends
  normally when the highlighter takes the preview of the first item.
\<close>

theorem displayed_in_rank_order:
  assumes "FlfDirCore_search toFixed db props = Inr res"
  shows "sort_key rank res = res
       \<and> currentResult (state_of (handleQueryChange_resume highlight (Inr res) s))
           = map toListItem res
       \<and> list_items (state_of (handleQueryChange_resume highlight (Inr res) s))
           = map (\<lambda>r. sr_file r @ utf16 ''#'' @ sr_entity r) res
       \<and> ((\<exists>x. highlight (fst (first_preview (map toListItem res)))
                  (snd (first_preview (map toListItem res))) = Inr x)
            \<longrightarrow> (\<exists>s1. handleQueryChange_resume highlight (Inr res) s = Fulfilled s1))"
proof -
  have srt: "sort_key rank res = res"
    by (rule search_sorted [OF assms])
  have "(\<exists>x. highlight (fst (first_preview (map toListItem res)))
                  (snd (first_preview (map toListItem res))) = Inr x)
            \<longrightarrow> (\<exists>s1. handleQueryChange_resume highlight (Inr res) s = Fulfilled s1)"
    using resume_fulfilled [of highlight res _ s] srt by auto
  then show ?thesis
    using srt resume_state [of highlight res s]
    by (simp add: convertListItemToListTitle_def toListItem_def)
qed

text \<open>
  C3. After \<open>updateList\<close> with any items, whatever the selected index was before, the
  selected index is 0, each title is the item's file path, \<open>#\<close> and its entity name,
  and \<open>currentResult\<close> is the items. This is the state the call leaves, also when the
  highlighter throws at its end. With an item the console selects index 0 itself; with
  none the index 0 is the widget's, on its emptied list.
\<close>

theorem updateList_titles_and_cursor:
  "list_items (state_of (updateList highlight items s))
     = map (\<lambda>i. filePath i @ utf16 ''#'' @ entity i) items
   \<and> currentResult (state_of (updateList highlight items s)) = items
   \<and> list_selected (state_of (updateList highlight items s)) = 0"
  by (simp add: updateList_state convertListItemToListTitle_def)

lemma example_highlight_accepts:
  "l \<noteq> utf16 ''nolang'' \<Longrightarrow> example_highlight c l = Inr c"
  by (simp add: example_highlight_def)

lemma example_languages:
  "utf16 ''typescript'' \<noteq> utf16 ''nolang''" "[] \<noteq> utf16 ''nolang''"
  by (simp_all add: utf16_def)

lemma first_preview_simps:
  "first_preview [] = ([], [])"
  "first_preview (i # items) = (content i, language i)"
  by (simp_all add: first_preview_def array_at_def)

theorem displayed_in_rank_order_witness:
  "currentResult (state_of (handleQueryChange_resume example_highlight
      (FlfDirCore_search example_toFixed
         (Some (\<lambda>q n. Inr [example_row (utf16 ''f'') 0, example_row (utf16 ''g'') 1]))
         (example_props True)) example_state))
     = map toListItem
         (map (toSearchResult example_toFixed True)
            (enumerate 0 [example_row (utf16 ''f'') 0, example_row (utf16 ''g'') 1]))
   \<and> (\<exists>s1. handleQueryChange_resume example_highlight
      (FlfDirCore_search example_toFixed
         (Some (\<lambda>q n. Inr [example_row (utf16 ''f'') 0, example_row (utf16 ''g'') 1]))
         (example_props True)) example_state = Fulfilled s1)"
proof -
  let ?res = "map (toSearchResult example_toFixed True)
                (enumerate 0 [example_row (utf16 ''f'') 0, example_row (utf16 ''g'') 1])"
  have a: "FlfDirCore_search example_toFixed
             (Some (\<lambda>q n. Inr [example_row (utf16 ''f'') 0, example_row (utf16 ''g'') 1]))
             (example_props True) = Inr ?res"
    by (simp add: FlfDirCore_search_def example_props_def)
  have b: "\<exists>x. example_highlight (fst (first_preview (map toListItem ?res)))
             (snd (first_preview (map toListItem ?res))) = Inr x"
    by (simp add: first_preview_simps toListItem_def toSearchResult_def example_row_def
          example_highlight_accepts example_languages)
  from displayed_in_rank_order [OF a, of example_highlight example_state] b show ?thesis
    unfolding a by blast
qed

theorem updateList_titles_and_cursor_witness:
  "list_items (state_of (updateList example_highlight [example_item (utf16 ''main'')]
       (example_state\<lparr>list_selected := 5\<rparr>)))
     = [utf16 ''./src/index.ts'' @ utf16 ''#'' @ utf16 ''main'']
   \<and> list_selected (state_of (updateList example_highlight [example_item (utf16 ''main'')]
       (example_state\<lparr>list_selected := 5\<rparr>))) = 0
   \<and> list_selected (state_of (updateList example_highlight []
       (example_state\<lparr>list_items := [utf16 ''a'', utf16 ''b'', utf16 ''c''], list_selected := 2\<rparr>))) = 0"
  using updateList_titles_and_cursor
    [of example_highlight "[example_item (utf16 ''main'')]" "example_state\<lparr>list_selected := 5\<rparr>"]
    updateList_titles_and_cursor
    [of example_highlight "[]"
        "example_state\<lparr>list_items := [utf16 ''a'', utf16 ''b'', utf16 ''c''], list_selected := 2\<rparr>"]
  by (simp add: example_item_def)

lemma key_names_differ:
  "utf16 ''up'' \<noteq> []" "utf16 ''down'' \<noteq> []" "utf16 ''enter'' \<noteq> []"
  "utf16 ''up'' \<noteq> utf16 ''backspace''" "utf16 ''up'' \<noteq> utf16 ''enter''"
  "utf16 ''down'' \<noteq> utf16 ''backspace''" "utf16 ''down'' \<noteq> utf16 ''enter''"
  "utf16 ''down'' \<noteq> utf16 ''up''" "utf16 ''enter'' \<noteq> utf16 ''backspace''"
  by (simp_all add: utf16_def)

lemma begin_up:
  "handleQueryChange_begin h J v (AsciiKey sq c sh m (utf16 ''up'') f) s
     = Done (updatePreview h (list_up 1 s))"
  by (simp add: handleQueryChange_begin_def key_names_differ Let_def)

lemma begin_down:
  "handleQueryChange_begin h J v (AsciiKey sq c sh m (utf16 ''down'') f) s
     = Done (updatePreview h (list_down 1 s))"
  by (simp add: handleQueryChange_begin_def key_names_differ Let_def)

lemma begin_enter:
  "handleQueryChange_begin h J v (AsciiKey sq c sh m (utf16 ''enter'') f) s =
     (case array_at (currentResult s) (list_selected s) of
        None \<Rightarrow> search_call (trim v) s
      | Some item \<Rightarrow>
          search_call (trim v)
            (perform [TtyInSetRawMode False, TtyInPause, TtyInDestroy, TtyOutEnd]
              (showResult J item (Some (options_editor s)) (screen_destroy s))))"
  by (simp add: handleQueryChange_begin_def key_names_differ Let_def)

text \<open>A navigation key is one of the two, and the handler is the preview update after the move.\<close>

lemma navigation_handler:
  assumes "isNavigation key"
  shows "\<exists>i. handleQueryChange h core J v key s = updatePreview h (list_select i s)"
proof -
  from assms obtain sq c sh m name f where
    "key = AsciiKey sq c sh m name f" "name = utf16 ''up'' \<or> name = utf16 ''down''"
    by (auto simp: isNavigation_def split: KeyInput.splits)
  then show ?thesis
    by (auto simp: handleQueryChange_def begin_up begin_down list_up_def list_down_def)
qed

lemma updatePreview_state [simp]:
  "currentResult (state_of (updatePreview h s)) = currentResult s"
  "list_items (state_of (updatePreview h s)) = list_items s"
  "list_selected (state_of (updatePreview h s)) = list_selected s"
  "options_editor (state_of (updatePreview h s)) = options_editor s"
  by (simp_all add: updatePreview_def Let_def split: option.splits)

lemma updatePreview_empty:
  "currentResult s = [] \<Longrightarrow>
   updatePreview h s = Rejected (Error (utf16 ''selectedItem is undefined'')) s"
  by (auto simp: updatePreview_def array_index_def Let_def)




lemma navigation_on_empty:
  assumes "isNavigation key" "currentResult s = []"
  shows "\<exists>s1. handleQueryChange h core J v key s
                = Rejected (Error (utf16 ''selectedItem is undefined'')) s1
           \<and> currentResult s1 = [] \<and> effects s1 = effects s"
proof -
  from navigation_handler [OF assms(1), of h core J v s] obtain i where
    "handleQueryChange h core J v key s = updatePreview h (list_select i s)" by auto
  then show ?thesis
    using updatePreview_empty [of "list_select i s" h] assms(2) by simp
qed









lemma showResult_effects:
  "effects (showResult J item (Some ed) s) = effects s @ [ConsoleLog (FlfDirCore_formatResult J item ed)]"
  by (simp add: showResult_def FlfDirCore_formatResult_def DEBUG_def Let_def)

text \<open>
  C4 (amended). On enter with an item at the selected index the console destroys the
  screen, then prints the output command on standard output, and only then releases the
  terminal device: raw mode off, pause, destroy of the input, end of the output. With no
  item at the selected index it does none of these and prints nothing. (Either way the
  handler then goes on to its search.)
\<close>

theorem enter_prints_before_release:
  "effects (ui (step highlight J ss (KeyPress v (AsciiKey sq c sh m (utf16 ''enter'') f)))) =
     (case array_at (currentResult (ui ss)) (list_selected (ui ss)) of
        None \<Rightarrow> effects (ui ss)
      | Some item \<Rightarrow>
          effects (ui ss)
          @ [ScreenDestroy,
             ConsoleLog (FlfDirCore_formatResult J item (options_editor (ui ss))),
             TtyInSetRawMode False, TtyInPause, TtyInDestroy, TtyOutEnd])"
  by (simp add: step_def begin_enter search_call_def showResult_effects screen_destroy_def
        split: option.splits)

lemma example_shown:
  "updateList example_highlight [example_item (utf16 ''main'')] example_state
     = Fulfilled
         \<lparr> currentResult = [example_item (utf16 ''main'')],
           list_items = [convertListItemToListTitle (example_item (utf16 ''main''))],
           list_selected = 0, preview = utf16 ''function f() {}'',
           options_editor = Cmd, effects = [ScreenRender] \<rparr>"
  by (simp add: updateList_def Let_def list_clearItems_def list_setItems_def list_select_def
        array_index_def array_at_def updatePreviewWithTitle_def screen_render_def perform_def
        example_state_def example_item_def example_highlight_accepts example_languages)

lemma example_selected:
  "array_at (currentResult (state_of (updateList example_highlight [example_item (utf16 ''main'')] example_state)))
     (list_selected (state_of (updateList example_highlight [example_item (utf16 ''main'')] example_state)))
   = Some (example_item (utf16 ''main''))"
  by (simp add: updateList_state array_at_def)

theorem enter_prints_before_release_witness:
  "effects (ui (step example_highlight example_stringify
       (new_session (state_of (updateList example_highlight [example_item (utf16 ''main'')] example_state)))
       (KeyPress [] (key_named ''enter''))))
   = [ScreenRender, ScreenDestroy, ConsoleLog (utf16 ''{}''),
      TtyInSetRawMode False, TtyInPause, TtyInDestroy, TtyOutEnd]"
  using enter_prints_before_release
    [of example_highlight example_stringify
        "new_session (state_of (updateList example_highlight [example_item (utf16 ''main'')] example_state))"
        "[]" "[]" False False False "utf16 ''enter''"]
    example_selected
  by (simp add: new_session_def key_named_def example_shown
        FlfDirCore_formatResult_def example_stringify_def)

text \<open>
  C4 as stated fails: on enter with one item shown, the line is printed before the
  terminal is released.
\<close>

theorem output_precedes_release:
  "\<not> output_after_release False
       (effects (ui (step example_highlight example_stringify
          (new_session (state_of (updateList example_highlight [example_item (utf16 ''main'')] example_state)))
          (KeyPress [] (key_named ''enter'')))))"
  using example_selected
  by (simp add: step_def key_named_def begin_enter search_call_def showResult_effects
        screen_destroy_def new_session_def example_shown)






lemma settle_ui: "ui (settle ss r) = state_of r"
  by (cases r) (simp_all add: settle_def)



lemma begin_awaits:
  assumes "\<not> isNavigation key"
  shows "\<exists>p s1. handleQueryChange_begin h J v key s = Await p s1
           \<and> currentResult s1 = currentResult s \<and> list_items s1 = list_items s
           \<and> list_selected s1 = list_selected s"
  using assms
  by (cases key)
     (auto simp: handleQueryChange_begin_def isNavigation_def Let_def search_call_def
         showResult_def DEBUG_def screen_destroy_def destroyTTY_def split: option.splits)






lemma navigation_outcome:
  assumes "isNavigation key" "list_items s \<noteq> []" "length (list_items s) = length (currentResult s)"
  shows "\<exists>j<length (currentResult s).
           (case h (content (currentResult s ! j)) (language (currentResult s ! j)) of
              Inl e \<Rightarrow>
                (\<exists>s1. handleQueryChange h core J v key s = Rejected e s1
                   \<and> list_selected s1 = int j \<and> effects s1 = effects s
                   \<and> currentResult s1 = currentResult s)
            | Inr x \<Rightarrow>
                (\<exists>s1. handleQueryChange h core J v key s = Fulfilled s1
                   \<and> list_selected s1 = int j \<and> currentResult s1 = currentResult s))"
proof -
  from navigation_handler [OF assms(1), of h core J v s] obtain i where
    eq: "handleQueryChange h core J v key s = updatePreview h (list_select i s)" by auto
  let ?s = "list_select i s"
  let ?j = "nat (list_selected ?s)"
  have rng: "0 \<le> list_selected ?s" "list_selected ?s < int (length (currentResult s))"
    using list_select_in_range [OF assms(2), of i] assms(3) by simp_all
  then have j: "?j < length (currentResult s)" "int ?j = list_selected ?s" by simp_all
  have "case h (content (currentResult s ! ?j)) (language (currentResult s ! ?j)) of
              Inl e \<Rightarrow>
                (\<exists>s1. updatePreview h ?s = Rejected e s1
                   \<and> list_selected s1 = int ?j \<and> effects s1 = effects s
                   \<and> currentResult s1 = currentResult s)
            | Inr x \<Rightarrow>
                (\<exists>s1. updatePreview h ?s = Fulfilled s1
                   \<and> list_selected s1 = int ?j \<and> currentResult s1 = currentResult s)"
    using rng
    by (simp add: updatePreview_def array_index_def Let_def updatePreviewWithTitle_def
          screen_render_def split: sum.splits)
  with j(1) show ?thesis unfolding eq by blast
qed

text \<open>
  C9 (amended). No handler of the console catches an error; an error inside
  \<open>handleQueryChange\<close> rejects its promise, which the keypress listener has dropped.
  With an up or down key on the empty list that error is
  \<open>Error("selectedItem is undefined")\<close>; on a list with items the key moves the
  index to an item and the outcome is the highlighter's on that item: handled when it
  takes the item, its error unhandled when it throws, with no effect performed. Any other
  key reaches the search, with the list and the index as they were: when the search
  fails, its error is unhandled and the console stays as it was at the await, nothing
  logged and nothing torn down; when it resolves, the list is replaced and the outcome
  is again the highlighter's, on the first item of the response.
\<close>

theorem rejections_are_unhandled:
  fixes highlight core JSON_stringify v key s
  defines "outcome \<equiv> keypress_listener highlight core JSON_stringify v key s"
  shows
  "(isNavigation key \<and> currentResult s = [] \<longrightarrow>
      (\<exists>s1. outcome = UnhandledRejection (Error (utf16 ''selectedItem is undefined'')) s1
          \<and> currentResult s1 = [] \<and> effects s1 = effects s))
   \<and> (isNavigation key \<and> list_items s \<noteq> [] \<and> length (list_items s) = length (currentResult s)
        \<longrightarrow>
      (\<exists>j<length (currentResult s).
         (case highlight (content (currentResult s ! j)) (language (currentResult s ! j)) of
            Inl e \<Rightarrow>
              (\<exists>s1. outcome = UnhandledRejection e s1
                 \<and> list_selected s1 = int j \<and> effects s1 = effects s
                 \<and> currentResult s1 = currentResult s)
          | Inr x \<Rightarrow>
              (\<exists>s1. outcome = Handled s1
                 \<and> list_selected s1 = int j \<and> currentResult s1 = currentResult s))))
   \<and> (\<not> isNavigation key \<longrightarrow>
      (\<exists>p s0. handleQueryChange_begin highlight JSON_stringify v key s = Await p s0
          \<and> currentResult s0 = currentResult s \<and> list_items s0 = list_items s
          \<and> list_selected s0 = list_selected s
          \<and> (\<forall>e. core p = Inl e \<longrightarrow> outcome = UnhandledRejection e s0)
          \<and> (\<forall>res x. core p = Inr res
                \<and> highlight (fst (first_preview (map toListItem (sort_key rank res))))
                     (snd (first_preview (map toListItem (sort_key rank res)))) = Inr x
                \<longrightarrow> (\<exists>s1. outcome = Handled s1))
          \<and> (\<forall>res e. core p = Inr res
                \<and> highlight (fst (first_preview (map toListItem (sort_key rank res))))
                     (snd (first_preview (map toListItem (sort_key rank res)))) = Inl e
                \<longrightarrow> (\<exists>s1. outcome = UnhandledRejection e s1 \<and> effects s1 = effects s0
                       \<and> currentResult s1 = map toListItem (sort_key rank res)))))"
proof (intro conjI impI)
  assume "isNavigation key \<and> currentResult s = []"
  then show "\<exists>s1. outcome = UnhandledRejection (Error (utf16 ''selectedItem is undefined'')) s1
          \<and> currentResult s1 = [] \<and> effects s1 = effects s"
    using navigation_on_empty [of key s highlight core JSON_stringify v]
    by (auto simp: outcome_def keypress_listener_def)
next
  assume a: "isNavigation key \<and> list_items s \<noteq> []
        \<and> length (list_items s) = length (currentResult s)"
  from navigation_outcome [of key s highlight core JSON_stringify v] a obtain j where
    j: "j < length (currentResult s)"
      "case highlight (content (currentResult s ! j)) (language (currentResult s ! j)) of
              Inl e \<Rightarrow>
                (\<exists>s1. handleQueryChange highlight core JSON_stringify v key s = Rejected e s1
                   \<and> list_selected s1 = int j \<and> effects s1 = effects s
                   \<and> currentResult s1 = currentResult s)
            | Inr x \<Rightarrow>
                (\<exists>s1. handleQueryChange highlight core JSON_stringify v key s = Fulfilled s1
                   \<and> list_selected s1 = int j \<and> currentResult s1 = currentResult s)"
    by blast
  from j(2) have "case highlight (content (currentResult s ! j)) (language (currentResult s ! j)) of
            Inl e \<Rightarrow>
              (\<exists>s1. outcome = UnhandledRejection e s1
                 \<and> list_selected s1 = int j \<and> effects s1 = effects s
                 \<and> currentResult s1 = currentResult s)
          | Inr x \<Rightarrow>
              (\<exists>s1. outcome = Handled s1
                 \<and> list_selected s1 = int j \<and> currentResult s1 = currentResult s)"
    by (auto simp: outcome_def keypress_listener_def split: sum.splits)
  with j(1) show "\<exists>j<length (currentResult s).
         (case highlight (content (currentResult s ! j)) (language (currentResult s ! j)) of
            Inl e \<Rightarrow>
              (\<exists>s1. outcome = UnhandledRejection e s1
                 \<and> list_selected s1 = int j \<and> effects s1 = effects s
                 \<and> currentResult s1 = currentResult s)
          | Inr x \<Rightarrow>
              (\<exists>s1. outcome = Handled s1
                 \<and> list_selected s1 = int j \<and> currentResult s1 = currentResult s))"
    by blast
next
  assume "\<not> isNavigation key"
  from begin_awaits [OF this, of highlight JSON_stringify v s] obtain p s0 where
    b: "handleQueryChange_begin highlight JSON_stringify v key s = Await p s0"
      "currentResult s0 = currentResult s" "list_items s0 = list_items s"
      "list_selected s0 = list_selected s"
    by auto
  have o: "outcome = (case handleQueryChange_resume highlight (core p) s0 of
              Fulfilled s1 \<Rightarrow> Handled s1 | Rejected e s1 \<Rightarrow> UnhandledRejection e s1)"
    by (simp add: outcome_def keypress_listener_def handleQueryChange_def b(1))
  have f: "\<forall>e. core p = Inl e \<longrightarrow> outcome = UnhandledRejection e s0"
    by (simp add: o handleQueryChange_resume_def)
  have g: "\<forall>res x. core p = Inr res
                \<and> highlight (fst (first_preview (map toListItem (sort_key rank res))))
                     (snd (first_preview (map toListItem (sort_key rank res)))) = Inr x
                \<longrightarrow> (\<exists>s1. outcome = Handled s1)"
  proof (intro allI impI)
    fix res x
    assume a: "core p = Inr res
                \<and> highlight (fst (first_preview (map toListItem (sort_key rank res))))
                     (snd (first_preview (map toListItem (sort_key rank res)))) = Inr x"
    with resume_fulfilled [of highlight res x s0] show "\<exists>s1. outcome = Handled s1"
      by (auto simp: o)
  qed
  have r: "\<forall>res e. core p = Inr res
                \<and> highlight (fst (first_preview (map toListItem (sort_key rank res))))
                     (snd (first_preview (map toListItem (sort_key rank res)))) = Inl e
                \<longrightarrow> (\<exists>s1. outcome = UnhandledRejection e s1 \<and> effects s1 = effects s0
                       \<and> currentResult s1 = map toListItem (sort_key rank res))"
  proof (intro allI impI)
    fix res e
    assume a: "core p = Inr res
                \<and> highlight (fst (first_preview (map toListItem (sort_key rank res))))
                     (snd (first_preview (map toListItem (sort_key rank res)))) = Inl e"
    with resume_rejected [of highlight res e s0] obtain s1 where
      s1: "handleQueryChange_resume highlight (Inr res) s0 = Rejected e s1" "effects s1 = effects s0"
      by auto
    have "currentResult (state_of (handleQueryChange_resume highlight (Inr res) s0))
        = map toListItem (sort_key rank res)"
      by (rule resume_state)
    with s1 a show "\<exists>s1. outcome = UnhandledRejection e s1 \<and> effects s1 = effects s0
                       \<and> currentResult s1 = map toListItem (sort_key rank res)"
      by (simp add: o)
  qed
  from b f g r show "\<exists>p s0. handleQueryChange_begin highlight JSON_stringify v key s = Await p s0
          \<and> currentResult s0 = currentResult s \<and> list_items s0 = list_items s
          \<and> list_selected s0 = list_selected s
          \<and> (\<forall>e. core p = Inl e \<longrightarrow> outcome = UnhandledRejection e s0)
          \<and> (\<forall>res x. core p = Inr res
                \<and> highlight (fst (first_preview (map toListItem (sort_key rank res))))
                     (snd (first_preview (map toListItem (sort_key rank res)))) = Inr x
                \<longrightarrow> (\<exists>s1. outcome = Handled s1))
          \<and> (\<forall>res e. core p = Inr res
                \<and> highlight (fst (first_preview (map toListItem (sort_key rank res))))
                     (snd (first_preview (map toListItem (sort_key rank res)))) = Inl e
                \<longrightarrow> (\<exists>s1. outcome = UnhandledRejection e s1 \<and> effects s1 = effects s0
                       \<and> currentResult s1 = map toListItem (sort_key rank res)))"
    by blast
qed

theorem rejections_are_unhandled_witness:
  "\<exists>s0. keypress_listener example_highlight
            (\<lambda>p. Inl (Error (utf16 ''DB must be initialized before searching.'')))
            example_stringify [] (key_named ''f'')
            (state_of (updateList example_highlight [example_item (utf16 ''main'')] example_state))
          = UnhandledRejection (Error (utf16 ''DB must be initialized before searching.'')) s0
        \<and> currentResult s0 = [example_item (utf16 ''main'')]"
proof -
  have n: "\<not> isNavigation (key_named ''f'')"
    by (simp add: isNavigation_def key_named_def utf16_def)
  show ?thesis
    using n
      rejections_are_unhandled [of "key_named ''f''"
        "state_of (updateList example_highlight [example_item (utf16 ''main'')] example_state)"
        example_highlight
        "\<lambda>p. Inl (Error (utf16 ''DB must be initialized before searching.''))"
        example_stringify "[]"]
    by (auto simp: updateList_state)
qed

lemma example_two_shown:
  "updateList example_highlight
      [example_item (utf16 ''a''), (example_item (utf16 ''b''))\<lparr>language := utf16 ''nolang''\<rparr>]
      example_state
     = Fulfilled
         \<lparr> currentResult =
             [example_item (utf16 ''a''), (example_item (utf16 ''b''))\<lparr>language := utf16 ''nolang''\<rparr>],
           list_items =
             [convertListItemToListTitle (example_item (utf16 ''a'')),
              convertListItemToListTitle ((example_item (utf16 ''b''))\<lparr>language := utf16 ''nolang''\<rparr>)],
           list_selected = 0, preview = utf16 ''function f() {}'',
           options_editor = Cmd, effects = [ScreenRender] \<rparr>"
  by (simp add: updateList_def Let_def list_clearItems_def list_setItems_def list_select_def
        array_index_def array_at_def updatePreviewWithTitle_def screen_render_def perform_def
        example_state_def example_item_def example_highlight_accepts example_languages)

text \<open>
  C9 as stated fails: a down key on the empty list is not handled to a normal end, its
  error leaves the handler as an unhandled rejection, and nothing is logged or torn down;
  so does a down key that moves to an item whose language the highlighter does not know.
\<close>

theorem preview_error_escapes_the_handler:
  "keypress_listener example_highlight (\<lambda>p. Inr []) example_stringify [] (key_named ''down'')
      (state_of (updateList example_highlight [] example_state))
     = UnhandledRejection (Error (utf16 ''selectedItem is undefined''))
         (list_down 1 (state_of (updateList example_highlight [] example_state)))
   \<and> effects (list_down 1 (state_of (updateList example_highlight [] example_state)))
       = effects (state_of (updateList example_highlight [] example_state))
   \<and> (\<exists>s1. keypress_listener example_highlight (\<lambda>p. Inr []) example_stringify []
          (key_named ''down'')
          (state_of (updateList example_highlight
             [example_item (utf16 ''a''), (example_item (utf16 ''b''))\<lparr>language := utf16 ''nolang''\<rparr>]
             example_state))
        = UnhandledRejection
            (Error (utf16 ''Unknown language: '' @ [0x22] @ utf16 ''nolang'' @ [0x22])) s1
       \<and> effects s1 = [ScreenRender])"
proof -
  have a: "keypress_listener example_highlight (\<lambda>p. Inr []) example_stringify [] (key_named ''down'')
      (state_of (updateList example_highlight [] example_state))
     = UnhandledRejection (Error (utf16 ''selectedItem is undefined''))
         (list_down 1 (state_of (updateList example_highlight [] example_state)))"
    by (simp add: keypress_listener_def handleQueryChange_def key_named_def begin_down
        updatePreview_empty updateList_state list_down_def)
  have b: "effects (list_down 1 (state_of (updateList example_highlight [] example_state)))
       = effects (state_of (updateList example_highlight [] example_state))"
    by (simp add: list_down_def)
  have c: "\<exists>s1. keypress_listener example_highlight (\<lambda>p. Inr []) example_stringify []
          (key_named ''down'')
          (state_of (updateList example_highlight
             [example_item (utf16 ''a''), (example_item (utf16 ''b''))\<lparr>language := utf16 ''nolang''\<rparr>]
             example_state))
        = UnhandledRejection
            (Error (utf16 ''Unknown language: '' @ [0x22] @ utf16 ''nolang'' @ [0x22])) s1
       \<and> effects s1 = [ScreenRender]"
    by (simp add: example_two_shown keypress_listener_def handleQueryChange_def key_named_def
          begin_down list_down_def list_select_def updatePreview_def array_index_def Let_def
          updatePreviewWithTitle_def example_highlight_def)
  from a b c show ?thesis by blast
qed

lemma run_snoc: "run h J ss (evs @ [ev]) = step h J (run h J ss evs) ev"
  by (simp add: run_def)

lemma step_settled:
  assumes "n \<in> fst ` set (in_flight ss)"
  shows "ui (step h J ss (SearchSettled n (Inr res)))
           = state_of (handleQueryChange_resume h (Inr res) (ui ss))"
  using assms by (simp add: step_def settle_ui)

text \<open>
  C1 (amended). The console has no gate on the order of responses: after any events,
  when an awaited search resolves, whichever of the awaited ones it is, the list shown
  is that response, in rank order, and the screen is rendered with it when the
  highlighter takes the preview of its first item. So the list on display is always the
  response that resolved last, also when a later search has resolved before it.
\<close>

theorem last_settled_response_is_displayed:
  fixes highlight JSON_stringify ss evs n res
  defines "after \<equiv> ui (run highlight JSON_stringify ss (evs @ [SearchSettled n (Inr res)]))"
  assumes "n \<in> fst ` set (in_flight (run highlight JSON_stringify ss evs))"
  shows "currentResult after = map toListItem (sort_key rank res)
       \<and> list_items after = map (convertListItemToListTitle \<circ> toListItem) (sort_key rank res)
       \<and> ((\<exists>x. highlight (fst (first_preview (map toListItem (sort_key rank res))))
                   (snd (first_preview (map toListItem (sort_key rank res)))) = Inr x)
            \<longrightarrow> last (effects after) = ScreenRender)"
proof -
  have a: "after = state_of (handleQueryChange_resume highlight (Inr res)
                      (ui (run highlight JSON_stringify ss evs)))"
    unfolding after_def run_snoc by (rule step_settled [OF assms(2)])
  have "(\<exists>x. highlight (fst (first_preview (map toListItem (sort_key rank res))))
                   (snd (first_preview (map toListItem (sort_key rank res)))) = Inr x)
            \<longrightarrow> last (effects after) = ScreenRender"
    using resume_fulfilled [of highlight res _ "ui (run highlight JSON_stringify ss evs)"]
    by (auto simp: a)
  then show ?thesis
    by (simp add: a resume_state)
qed

lemma example_run:
  "run example_highlight example_stringify (new_session example_state)
     [KeyPress [] (key_named ''f''), KeyPress (utf16 ''f'') (key_named ''o'')]
   = \<lparr> ui = example_state, next_seq = 2,
       in_flight =
         [(0, \<lparr> queryText = utf16 ''f'', k = 20, isJsonOutput = True, dbPath = utf16 '':memory:'' \<rparr>),
          (1, \<lparr> queryText = utf16 ''fo'', k = 20, isJsonOutput = True, dbPath = utf16 '':memory:'' \<rparr>)],
       unhandled = [] \<rparr>"
  by (simp add: run_def step_def new_session_def handleQueryChange_begin_def key_named_def
        search_call_def trim_def utf16_def isWhiteSpace_def isLineTerminator_def)

lemma example_response_shown:
  "handleQueryChange_resume example_highlight (Inr [example_result name]) s
     = Fulfilled (screen_render (state_of (updateList example_highlight [toListItem (example_result name)] s)))"
proof -
  have "example_highlight (fst (first_preview [toListItem (example_result name)]))
          (snd (first_preview [toListItem (example_result name)]))
        = Inr (utf16 ''function f() {}'')"
    by (simp add: first_preview_simps toListItem_def example_result_def toSearchResult_def
          example_row_def example_highlight_accepts example_languages)
  from updateList_fulfilled [of example_highlight "[toListItem (example_result name)]" _ s, OF this]
  show ?thesis by (auto simp: handleQueryChange_resume_def)
qed

lemma example_run_settled:
  "run example_highlight example_stringify (new_session example_state)
     [KeyPress [] (key_named ''f''), KeyPress (utf16 ''f'') (key_named ''o''),
      SearchSettled 1 (Inr [example_result (utf16 ''second'')])]
   = \<lparr> ui = screen_render (state_of (updateList example_highlight
                [toListItem (example_result (utf16 ''second''))] example_state)),
       next_seq = 2,
       in_flight =
         [(0, \<lparr> queryText = utf16 ''f'', k = 20, isJsonOutput = True, dbPath = utf16 '':memory:'' \<rparr>)],
       unhandled = [] \<rparr>"
  using example_run
  by (simp add: run_snoc [of _ _ _ "[a, b]" for a b, simplified] step_def settle_def
        example_response_shown)

theorem last_settled_response_is_displayed_witness:
  "currentResult (ui (run example_highlight example_stringify (new_session example_state)
       ([KeyPress [] (key_named ''f''), KeyPress (utf16 ''f'') (key_named ''o''),
         SearchSettled 1 (Inr [example_result (utf16 ''second'')])]
        @ [SearchSettled 0 (Inr [example_result (utf16 ''first'')])])))
     = [toListItem (example_result (utf16 ''first''))]"
proof -
  have "0 \<in> fst ` set (in_flight (run example_highlight example_stringify (new_session example_state)
       [KeyPress [] (key_named ''f''), KeyPress (utf16 ''f'') (key_named ''o''),
        SearchSettled 1 (Inr [example_result (utf16 ''second'')])]))"
    unfolding example_run_settled by simp
  from last_settled_response_is_displayed [OF this, of "[example_result (utf16 ''first'')]"]
  show ?thesis by simp
qed

text \<open>
  C1 as stated fails: two keys start the searches 0 and 1; search 1 resolves first and
  search 0 after it. The greatest number among the resolved searches is 1, and the list
  on display is the response of search 0.
\<close>

theorem stale_response_is_displayed:
  "highest_completed
     [KeyPress [] (key_named ''f''), KeyPress (utf16 ''f'') (key_named ''o''),
      SearchSettled 1 (Inr [example_result (utf16 ''second'')]),
      SearchSettled 0 (Inr [example_result (utf16 ''first'')])]
     = Some [example_result (utf16 ''second'')]
   \<and> currentResult (ui (run example_highlight example_stringify (new_session example_state)
       [KeyPress [] (key_named ''f''), KeyPress (utf16 ''f'') (key_named ''o''),
        SearchSettled 1 (Inr [example_result (utf16 ''second'')]),
        SearchSettled 0 (Inr [example_result (utf16 ''first'')])]))
     = map toListItem [example_result (utf16 ''first'')]
   \<and> map toListItem [example_result (utf16 ''first'')]
     \<noteq> map toListItem [example_result (utf16 ''second'')]"
proof -
  have a: "highest_completed
     [KeyPress [] (key_named ''f''), KeyPress (utf16 ''f'') (key_named ''o''),
      SearchSettled 1 (Inr [example_result (utf16 ''second'')]),
      SearchSettled 0 (Inr [example_result (utf16 ''first'')])]
     = Some [example_result (utf16 ''second'')]"
    by (simp add: highest_completed_def)
  have r: "run example_highlight example_stringify (new_session example_state)
       [KeyPress [] (key_named ''f''), KeyPress (utf16 ''f'') (key_named ''o''),
        SearchSettled 1 (Inr [example_result (utf16 ''second'')]),
        SearchSettled 0 (Inr [example_result (utf16 ''first'')])]
     = step example_highlight example_stringify
         (run example_highlight example_stringify (new_session example_state)
            [KeyPress [] (key_named ''f''), KeyPress (utf16 ''f'') (key_named ''o''),
             SearchSettled 1 (Inr [example_result (utf16 ''second'')])])
         (SearchSettled 0 (Inr [example_result (utf16 ''first'')]))"
    using run_snoc [of example_highlight example_stringify "new_session example_state"
        "[KeyPress [] (key_named ''f''), KeyPress (utf16 ''f'') (key_named ''o''),
          SearchSettled 1 (Inr [example_result (utf16 ''second'')])]"
        "SearchSettled 0 (Inr [example_result (utf16 ''first'')])"]
    by (simp only: append.simps)
  have b: "currentResult (ui (run example_highlight example_stringify (new_session example_state)
       [KeyPress [] (key_named ''f''), KeyPress (utf16 ''f'') (key_named ''o''),
        SearchSettled 1 (Inr [example_result (utf16 ''second'')]),
        SearchSettled 0 (Inr [example_result (utf16 ''first'')])]))
     = map toListItem [example_result (utf16 ''first'')]"
    unfolding r example_run_settled
    by (simp add: step_def settle_def example_response_shown screen_render_def updateList_state)
  have c: "map toListItem [example_result (utf16 ''first'')]
     \<noteq> map toListItem [example_result (utf16 ''second'')]"
    by (simp add: toListItem_def example_result_def toSearchResult_def example_row_def utf16_def)
  from a b c show ?thesis by simp
qed

end
